theory Spec2Isabelle
  imports Complex_Main
begin

section \<open>Python strings\<close>

text \<open>
  The settings module \<^verbatim>\<open>config.py\<close> works on Python \<^verbatim>\<open>str\<close> values with the
  built-in methods \<^verbatim>\<open>split\<close>, \<^verbatim>\<open>strip\<close>, \<^verbatim>\<open>upper\<close> and \<^verbatim>\<open>lower\<close>.
  A \<^verbatim>\<open>str\<close> is modelled as a \<^typ>\<open>string\<close>, one \<^typ>\<open>char\<close> per code point, so a
  string of the model holds the code points 0 to 255. White space is Python's on
  all of them. The case mappings are Python's on the code points 0 to 127 and
  leave the characters above 127 alone (Python's Unicode case mappings are outside
  the model).
\<close>

definition str_isspace :: "char \<Rightarrow> bool" where
  \<comment> \<open>the code points below 256 for which Python's \<^verbatim>\<open>str.isspace\<close> is true, which
      are the ones \<^verbatim>\<open>strip()\<close> removes: TAB, LF, VT, FF, CR (9 to 13), FS, GS, RS, US
      (28 to 31), the space (32), NEL (133, U+0085) and the no-break space (160, U+00A0)\<close>
  "str_isspace c =
     (let n = (of_char c :: nat)
      in (9 \<le> n \<and> n \<le> 13) \<or> (28 \<le> n \<and> n \<le> 32) \<or> n = 133 \<or> n = 160)"

definition str_lstrip :: "string \<Rightarrow> string" where
  "str_lstrip s = dropWhile str_isspace s"

definition str_rstrip :: "string \<Rightarrow> string" where
  "str_rstrip s = rev (dropWhile str_isspace (rev s))"

definition str_strip :: "string \<Rightarrow> string" where
  \<comment> \<open>\<^verbatim>\<open>s.strip()\<close>: leading and trailing white space removed\<close>
  "str_strip s = str_rstrip (str_lstrip s)"

fun str_split :: "char \<Rightarrow> string \<Rightarrow> string list" where
  \<comment> \<open>\<^verbatim>\<open>s.split(sep)\<close> for a separator of one character: one piece more than there
      are separators, empty pieces kept, so that \<^verbatim>\<open>"".split(",") == [""]\<close>\<close>
  "str_split sep [] = [[]]"
| "str_split sep (c # cs) =
     (if c = sep then [] # str_split sep cs
      else (c # hd (str_split sep cs)) # tl (str_split sep cs))"

fun str_join :: "string \<Rightarrow> string list \<Rightarrow> string" where
  \<comment> \<open>\<^verbatim>\<open>sep.join(xs)\<close>\<close>
  "str_join sep [] = []"
| "str_join sep [x] = x"
| "str_join sep (x # y # ys) = x @ sep @ str_join sep (y # ys)"

definition upper_char :: "char \<Rightarrow> char" where
  "upper_char c =
     (let n = (of_char c :: nat) in if 97 \<le> n \<and> n \<le> 122 then char_of (n - 32) else c)"

definition lower_char :: "char \<Rightarrow> char" where
  "lower_char c =
     (let n = (of_char c :: nat) in if 65 \<le> n \<and> n \<le> 90 then char_of (n + 32) else c)"

definition str_upper :: "string \<Rightarrow> string" where
  "str_upper s = map upper_char s"

definition str_lower :: "string \<Rightarrow> string" where
  "str_lower s = map lower_char s"

subsection \<open>The text of a list of strings\<close>

text \<open>
  An f-string formats a list with \<^verbatim>\<open>str(list)\<close>: the \<^verbatim>\<open>repr\<close> of each element,
  joined by a comma and a space, between square brackets. The \<^verbatim>\<open>repr\<close> of a
  \<^verbatim>\<open>str\<close> puts it between single quotes (between double quotes when it holds a
  single quote and no double quote) and escapes the backslash, the chosen quote
  and the control characters.
\<close>

definition hex_digit :: "nat \<Rightarrow> char" where
  "hex_digit n = ''0123456789abcdef'' ! (n mod 16)"

definition repr_char :: "char \<Rightarrow> char \<Rightarrow> string" where
  "repr_char quote c =
     (let n = (of_char c :: nat) in
      if c = quote \<or> n = 92 then [CHR 0x5C, c]
      else if n = 9 then [CHR 0x5C, CHR ''t'']
      else if n = 10 then [CHR 0x5C, CHR ''n'']
      else if n = 13 then [CHR 0x5C, CHR ''r'']
      else if n < 32 \<or> n = 127 then [CHR 0x5C, CHR ''x'', hex_digit (n div 16), hex_digit n]
      else [c])"

definition repr_str :: "string \<Rightarrow> string" where
  "repr_str s =
     (let quote = (if CHR 0x27 \<in> set s \<and> CHR 0x22 \<notin> set s then CHR 0x22 else CHR 0x27)
      in [quote] @ concat (map (repr_char quote) s) @ [quote])"

definition str_of_list :: "string list \<Rightarrow> string" where
  "str_of_list xs = ''['' @ str_join '', '' (map repr_str xs) @ '']''"

section \<open>Values reaching a validator\<close>

text \<open>
  A validator declared with \<^verbatim>\<open>mode="before"\<close> receives the raw input, which may be of
  any Python type; \<^verbatim>\<open>isinstance(v, str)\<close> tells the constructor of the value.
\<close>

datatype pyval =
    PyNone
  | PyBool bool
  | PyInt int
  | PyStr string
  | PyList "pyval list"

datatype error = ValueError string

section \<open>The settings class\<close>

text \<open>
  The fields of \<^verbatim>\<open>class Settings\<close>, in declaration order. \<^verbatim>\<open>List[str]\<close> is a
  \<^typ>\<open>string list\<close>, \<^verbatim>\<open>Optional[str]\<close> a \<^typ>\<open>string option\<close>; the one \<^verbatim>\<open>float\<close>
  field is only stored, and is kept as a \<^typ>\<open>real\<close>.
\<close>

record Settings =
  APP_NAME :: string
  APP_VERSION :: string
  APP_DESCRIPTION :: string
  ENVIRONMENT :: string
  DEBUG :: bool
  HOST :: string
  PORT :: int
  WORKERS :: int
  RELOAD :: bool
  API_V1_PREFIX :: string
  CORS_ORIGINS :: "string list"
  CORS_ALLOW_CREDENTIALS :: bool
  CORS_ALLOW_METHODS :: "string list"
  CORS_ALLOW_HEADERS :: "string list"
  AZURE_TENANT_ID :: string
  AZURE_CLIENT_ID :: string
  AZURE_CLIENT_SECRET :: string
  AZURE_OPENAI_ENDPOINT :: string
  AZURE_OPENAI_API_KEY :: string
  AZURE_OPENAI_DEPLOYMENT :: string
  AZURE_OPENAI_API_VERSION :: string
  AZURE_OPENAI_TEMPERATURE :: real
  AZURE_OPENAI_MAX_TOKENS :: int
  AZURE_WORKSPACE_ID :: string
  AZURE_LOG_ANALYTICS_ENDPOINT :: string
  REDIS_HOST :: string
  REDIS_PORT :: int
  REDIS_PASSWORD :: "string option"
  REDIS_SSL :: bool
  REDIS_DB :: int
  REDIS_MAX_CONNECTIONS :: int
  JWT_ALGORITHM :: string
  JWT_AUDIENCE :: string
  JWT_ISSUER :: string
  JWT_LEEWAY :: int
  RATE_LIMIT_ENABLED :: bool
  RATE_LIMIT_PER_MINUTE :: int
  RATE_LIMIT_PER_HOUR :: int
  CONVERSATION_TIMEOUT_MINUTES :: int
  MAX_CONVERSATION_HISTORY :: int
  MAX_MESSAGE_LENGTH :: int
  CONTEXT_WINDOW_SIZE :: int
  LOG_LEVEL :: string
  LOG_FORMAT :: string
  APPLICATIONINSIGHTS_CONNECTION_STRING :: "string option"
  METRICS_ENABLED :: bool
  ENABLE_TRACING :: bool
  FEATURE_WEBSOCKET_ENABLED :: bool
  MOCK_OPENAI :: bool
  MOCK_SENTINEL :: bool
  TEST_MODE :: bool

subsection \<open>Validators\<close>

text \<open>
  \<^verbatim>\<open>
  @field_validator("CORS_ORIGINS", mode="before")
  @classmethod
  def parse_cors_origins(cls, v):
      if isinstance(v, str):
          return [origin.strip() for origin in v.split(",")]
      return v
  \<close>
  The body has no \<^verbatim>\<open>raise\<close>, and \<^verbatim>\<open>split\<close> and \<^verbatim>\<open>strip\<close> do not raise on a
  \<^verbatim>\<open>str\<close>: the function returns a value on every input.
\<close>

fun parse_cors_origins :: "pyval \<Rightarrow> pyval" where
  "parse_cors_origins (PyStr v) =
     PyList [PyStr (str_strip origin). origin \<leftarrow> str_split CHR '','' v]"
| "parse_cors_origins v = v"

text \<open>
  \<^verbatim>\<open>
  @field_validator("LOG_LEVEL")
  @classmethod
  def validate_log_level(cls, v):
      valid_levels = ["DEBUG", "INFO", "WARNING", "ERROR", "CRITICAL"]
      if v.upper() not in valid_levels:
          raise ValueError(f"LOG_LEVEL must be one of {valid_levels}")
      return v.upper()
  \<close>
  The validator runs after the field's own type \<^verbatim>\<open>str\<close>, so \<open>v\<close> is a string.
\<close>

definition validate_log_level :: "string \<Rightarrow> error + string" where
  "validate_log_level v =
     (let valid_levels = [''DEBUG'', ''INFO'', ''WARNING'', ''ERROR'', ''CRITICAL'']
      in if str_upper v \<notin> set valid_levels
         then Inl (ValueError (''LOG_LEVEL must be one of '' @ str_of_list valid_levels))
         else Inr (str_upper v))"

subsection \<open>Derived properties\<close>

definition is_production :: "Settings \<Rightarrow> bool" where
  "is_production self = (str_lower (ENVIRONMENT self) = ''production'')"

definition is_development :: "Settings \<Rightarrow> bool" where
  "is_development self = (str_lower (ENVIRONMENT self) = ''development'')"

subsection \<open>Comparing without regard to case\<close>

text \<open>
  The specification speaks of a field that, "compared case-insensitively", equals
  a literal. The two definitions below say what that means, letter by letter, and
  do not mention \<^const>\<open>str_lower\<close>: two characters are the same letter when they
  are equal or when one is an ASCII capital and the other its small letter, and two
  strings compare equal when they have the same length and the same letter at
  every position.
\<close>

definition same_letter :: "char \<Rightarrow> char \<Rightarrow> bool" where
  "same_letter c d =
     (let m = (of_char c :: nat); n = (of_char d :: nat)
      in c = d \<or> (65 \<le> m \<and> m \<le> 90 \<and> n = m + 32) \<or> (65 \<le> n \<and> n \<le> 90 \<and> m = n + 32))"

definition case_insensitive_equal :: "string \<Rightarrow> string \<Rightarrow> bool" where
  "case_insensitive_equal a b = list_all2 same_letter a b"

section \<open>Facts about the string functions\<close>

lemma str_split_not_Nil: "str_split sep s \<noteq> []"
  by (induction s) auto

lemma length_str_split: "length (str_split sep s) = Suc (count_list s sep)"
proof (induction s)
  case Nil
  show ?case by simp
next
  case (Cons c cs)
  have "length (tl (str_split sep cs)) = count_list cs sep"
    using Cons.IH by simp
  then show ?case using Cons.IH by simp
qed

lemma str_split_append:
  "str_split sep (xs @ sep # ys) = str_split sep xs @ str_split sep ys"
proof (induction xs)
  case Nil
  show ?case by simp
next
  case (Cons x xs)
  obtain p ps where ps: "str_split sep xs = p # ps"
    using str_split_not_Nil [of sep xs] by (cases "str_split sep xs") auto
  show ?case using Cons.IH ps by simp
qed

lemma str_join_cons:
  "ps \<noteq> [] \<Longrightarrow> str_join sep (p # ps) = p @ sep @ str_join sep ps"
  by (cases ps) auto

lemma str_join_split: "str_join [sep] (str_split sep s) = s"
proof (induction s)
  case Nil
  show ?case by simp
next
  case (Cons c cs)
  obtain p ps where ps: "str_split sep cs = p # ps"
    using str_split_not_Nil [of sep cs] by (cases "str_split sep cs") auto
  show ?case
  proof (cases "c = sep")
    case True
    then show ?thesis
      using Cons.IH by (simp add: str_join_cons str_split_not_Nil)
  next
    case False
    then show ?thesis
      using Cons.IH ps by (cases ps) auto
  qed
qed

lemma str_split_pieces: "p \<in> set (str_split sep s) \<Longrightarrow> sep \<notin> set p"
proof (induction s arbitrary: p)
  case Nil
  then show ?case by simp
next
  case (Cons c cs)
  obtain q qs where qs: "str_split sep cs = q # qs"
    using str_split_not_Nil [of sep cs] by (cases "str_split sep cs") auto
  have q: "sep \<notin> set q" and rest: "\<And>r. r \<in> set qs \<Longrightarrow> sep \<notin> set r"
    using Cons.IH qs by auto
  show ?case
  proof (cases "c = sep")
    case True
    then show ?thesis using Cons.prems Cons.IH by auto
  next
    case False
    then have "p = c # q \<or> p \<in> set qs"
      using Cons.prems qs by auto
    then show ?thesis using False q rest by auto
  qed
qed

lemma rev_dropWhile_takeWhile:
  "rev (dropWhile P (rev xs)) @ rev (takeWhile P (rev xs)) = xs"
proof -
  have "rev (takeWhile P (rev xs) @ dropWhile P (rev xs)) = rev (rev xs)"
    by (simp only: takeWhile_dropWhile_id)
  then show ?thesis
    by (simp only: rev_append rev_rev_ident)
qed

lemma list_all_takeWhile: "list_all P (takeWhile P xs)"
  by (induction xs) auto

lemma str_strip_decomp:
  "\<exists>l r. s = l @ str_strip s @ r \<and> list_all str_isspace l \<and> list_all str_isspace r"
proof -
  let ?l = "takeWhile str_isspace s"
  let ?m = "dropWhile str_isspace s"
  let ?r = "rev (takeWhile str_isspace (rev ?m))"
  have "str_strip s @ ?r = ?m"
    unfolding str_strip_def str_rstrip_def str_lstrip_def
    by (rule rev_dropWhile_takeWhile)
  then have "s = ?l @ str_strip s @ ?r"
    by (simp only: takeWhile_dropWhile_id)
  moreover have "list_all str_isspace ?l"
    by (rule list_all_takeWhile)
  moreover have "list_all str_isspace ?r"
    by (simp add: list_all_takeWhile)
  ultimately show ?thesis by blast
qed

lemma str_strip_ends:
  "str_strip s = [] \<or> (\<not> str_isspace (hd (str_strip s)) \<and> \<not> str_isspace (last (str_strip s)))"
proof (cases "str_strip s = []")
  case True
  then show ?thesis by simp
next
  case False
  let ?m = "dropWhile str_isspace s"
  let ?t = "dropWhile str_isspace (rev ?m)"
  have st: "str_strip s = rev ?t"
    by (simp only: str_strip_def str_rstrip_def str_lstrip_def)
  have t: "?t \<noteq> []"
    using False unfolding st by (simp only: rev_is_Nil_conv not_False_eq_True)
  have "\<not> str_isspace (hd ?t)"
    using t by (rule hd_dropWhile)
  then have last_ok: "\<not> str_isspace (last (str_strip s))"
    using t st by (simp add: last_rev)
  have m: "?m \<noteq> []"
  proof
    assume e: "?m = []"
    have "?t = []" unfolding e by simp
    with t show False by contradiction
  qed
  have "rev ?t @ rev (takeWhile str_isspace (rev ?m)) = ?m"
    by (rule rev_dropWhile_takeWhile)
  then have "hd ?m = hd (rev ?t @ rev (takeWhile str_isspace (rev ?m)))"
    by (simp only:)
  also have "\<dots> = hd (rev ?t)"
    using t by (simp only: hd_append2 rev_is_Nil_conv not_False_eq_True)
  finally have "hd (rev ?t) = hd ?m" by (rule sym)
  moreover have "\<not> str_isspace (hd ?m)"
    using m by (rule hd_dropWhile)
  ultimately have "\<not> str_isspace (hd (str_strip s))"
    unfolding st by simp
  then show ?thesis using last_ok by simp
qed

text \<open>
  The no-break space and NEL are trimmed like the ASCII white space; the
  neighbouring code points 132 and 161 are not white space and stay.
\<close>

lemma str_strip_latin1:
  "str_strip [CHR 0xA0, CHR 0x09, CHR ''x'', CHR 0x20, CHR ''y'', CHR 0x1C, CHR 0x85] = ''x y''
   \<and> str_strip [CHR 0x84, CHR ''x'', CHR 0xA1] = [CHR 0x84, CHR ''x'', CHR 0xA1]"
  by code_simp

section \<open>Facts about case and about the error text\<close>

lemma lower_char_eq_iff: "lower_char c = lower_char d \<longleftrightarrow> same_letter c d"
  unfolding lower_char_def same_letter_def Let_def
  by (auto simp: char_of_eq_iff take_bit_eq_mod intro!: of_char_eqI[where 'a=nat])

lemma str_lower_eq_iff: "str_lower a = str_lower b \<longleftrightarrow> case_insensitive_equal a b"
  unfolding str_lower_def case_insensitive_equal_def
proof (induction a arbitrary: b)
  case Nil
  show ?case by auto
next
  case (Cons x xs)
  show ?case
    by (cases b) (simp_all add: Cons.IH lower_char_eq_iff)
qed

lemma str_lower_production: "str_lower ''production'' = ''production''"
  by code_simp

lemma str_lower_development: "str_lower ''development'' = ''development''"
  by code_simp

lemma valid_levels_text:
  "str_of_list [''DEBUG'', ''INFO'', ''WARNING'', ''ERROR'', ''CRITICAL'']
     = ''['DEBUG', 'INFO', 'WARNING', 'ERROR', 'CRITICAL']''"
  by code_simp

section \<open>The validator of CORS_ORIGINS\<close>

text \<open>
  C9: \<^const>\<open>parse_cors_origins\<close> returns a list on every string, with no error: the
  list has one element for each comma of the input and one more, so no segment is
  dropped; an empty segment between two commas stays in the list as the empty
  string (\<^verbatim>\<open>"a,,b"\<close> gives \<^verbatim>\<open>["a", "", "b"]\<close>), and the empty string gives the list
  \<^verbatim>\<open>[""]\<close> of one empty string.
\<close>

theorem parse_cors_origins_total:
  "(\<exists>origins. parse_cors_origins (PyStr s) = PyList (map PyStr origins)
       \<and> length origins = Suc (count_list s CHR '',''))
   \<and> parse_cors_origins (PyStr (xs @ '',,'' @ ys)) =
       PyList (map PyStr (map str_strip (str_split CHR '','' xs) @ [''''] @
                          map str_strip (str_split CHR '','' ys)))
   \<and> parse_cors_origins (PyStr ''a,,b'') = PyList [PyStr ''a'', PyStr '''', PyStr ''b'']
   \<and> parse_cors_origins (PyStr '''') = PyList [PyStr '''']"
proof -
  let ?origins = "map str_strip (str_split CHR '','' s)"
  have "parse_cors_origins (PyStr s) = PyList (map PyStr ?origins)"
    by simp
  moreover have "length ?origins = Suc (count_list s CHR '','')"
    by (simp add: length_str_split)
  ultimately have total: "\<exists>origins. parse_cors_origins (PyStr s) = PyList (map PyStr origins)
       \<and> length origins = Suc (count_list s CHR '','')"
    by blast
  have "str_split CHR '','' (xs @ '',,'' @ ys) =
          str_split CHR '','' xs @ [] # str_split CHR '','' ys"
    using str_split_append [of "CHR '',''" xs "CHR '','' # ys"] by simp
  moreover have "str_strip [] = []"
    by (simp add: str_strip_def str_rstrip_def str_lstrip_def)
  ultimately have interior: "parse_cors_origins (PyStr (xs @ '',,'' @ ys)) =
       PyList (map PyStr (map str_strip (str_split CHR '','' xs) @ [''''] @
                          map str_strip (str_split CHR '','' ys)))"
    by simp
  have ex1: "parse_cors_origins (PyStr ''a,,b'') = PyList [PyStr ''a'', PyStr '''', PyStr ''b'']"
    by code_simp
  have ex2: "parse_cors_origins (PyStr '''') = PyList [PyStr '''']"
    by code_simp
  show ?thesis using total interior ex1 ex2 by blast
qed

text \<open>
  C1, as the specification words it, has the empty string coerced to the empty
  list. The validator returns the list holding one empty string instead.
\<close>

theorem parse_cors_origins_empty_counterexample:
  "parse_cors_origins (PyStr '''') \<noteq> PyList []"
  by code_simp

text \<open>
  C1, amended: a string input is split at its commas and white space is trimmed
  from both ends of each piece, the pieces in input order (joining the pieces of
  the split with commas gives the input back, no piece holds a comma, there is
  one piece more than there are commas, and a trimmed piece is the piece without
  a run of white space at each end);
  \<^verbatim>\<open>"a, b ,c"\<close> gives \<^verbatim>\<open>["a", "b", "c"]\<close>; an input that is already a list is
  returned unchanged; the empty string gives \<^verbatim>\<open>[""]\<close>, the list of one empty
  string.
\<close>

theorem parse_cors_origins_spec:
  "parse_cors_origins (PyStr s) = PyList (map PyStr (map str_strip (str_split CHR '','' s)))
   \<and> str_join '','' (str_split CHR '','' s) = s
   \<and> list_all (\<lambda>p. CHR '','' \<notin> set p) (str_split CHR '','' s)
   \<and> length (str_split CHR '','' s) = Suc (count_list s CHR '','')
   \<and> (\<exists>l r. p = l @ str_strip p @ r \<and> list_all str_isspace l \<and> list_all str_isspace r)
   \<and> (str_strip p \<noteq> [] \<longrightarrow>
        \<not> str_isspace (hd (str_strip p)) \<and> \<not> str_isspace (last (str_strip p)))
   \<and> parse_cors_origins (PyStr ''a, b ,c'') = PyList [PyStr ''a'', PyStr ''b'', PyStr ''c'']
   \<and> parse_cors_origins (PyList vs) = PyList vs
   \<and> parse_cors_origins (PyStr '''') = PyList [PyStr '''']"
proof -
  have a: "parse_cors_origins (PyStr s) = PyList (map PyStr (map str_strip (str_split CHR '','' s)))"
    by simp
  have b: "str_join '','' (str_split CHR '','' s) = s"
    by (rule str_join_split)
  have c: "list_all (\<lambda>p. CHR '','' \<notin> set p) (str_split CHR '','' s)"
    by (simp add: list_all_iff str_split_pieces)
  have c': "length (str_split CHR '','' s) = Suc (count_list s CHR '','')"
    by (rule length_str_split)
  have d: "\<exists>l r. p = l @ str_strip p @ r \<and> list_all str_isspace l \<and> list_all str_isspace r"
    by (rule str_strip_decomp)
  have e: "str_strip p \<noteq> [] \<longrightarrow>
        \<not> str_isspace (hd (str_strip p)) \<and> \<not> str_isspace (last (str_strip p))"
    using str_strip_ends [of p] by blast
  have f: "parse_cors_origins (PyStr ''a, b ,c'') = PyList [PyStr ''a'', PyStr ''b'', PyStr ''c'']"
    by code_simp
  have g: "parse_cors_origins (PyList vs) = PyList vs"
    by simp
  have h: "parse_cors_origins (PyStr '''') = PyList [PyStr '''']"
    by code_simp
  show ?thesis using a b c c' d e f g h by blast
qed

text \<open>The amended C1 at the input \<^verbatim>\<open>"a, b ,c"\<close> and its middle piece \<^verbatim>\<open>" b "\<close>.\<close>

theorem parse_cors_origins_spec_witness:
  "str_strip '' b '' \<noteq> []
   \<and> \<not> str_isspace (hd (str_strip '' b '')) \<and> \<not> str_isspace (last (str_strip '' b ''))
   \<and> parse_cors_origins (PyStr ''a, b ,c'') = PyList [PyStr ''a'', PyStr ''b'', PyStr ''c'']
   \<and> str_join '','' (str_split CHR '','' ''a, b ,c'') = ''a, b ,c''"
proof -
  have ne: "str_strip '' b '' \<noteq> []"
    by code_simp
  show ?thesis
    using ne parse_cors_origins_spec [of "''a, b ,c''" "'' b ''" "[]"] by blast
qed

section \<open>The validator of LOG_LEVEL\<close>

text \<open>
  C6: \<^const>\<open>validate_log_level\<close> succeeds exactly when the input in capitals is one
  of DEBUG, INFO, WARNING, ERROR and CRITICAL, and then returns the input in
  capitals (\<^verbatim>\<open>"debug"\<close> gives \<^verbatim>\<open>"DEBUG"\<close>); on every other input (\<^verbatim>\<open>"bogus"\<close>, say)
  it fails, with the \<^verbatim>\<open>ValueError\<close> whose message names the field LOG_LEVEL and
  lists the five levels.
\<close>

theorem validate_log_level_spec:
  "validate_log_level v =
     (if str_upper v \<in> {''DEBUG'', ''INFO'', ''WARNING'', ''ERROR'', ''CRITICAL''}
      then Inr (str_upper v)
      else Inl (ValueError
             ''LOG_LEVEL must be one of ['DEBUG', 'INFO', 'WARNING', 'ERROR', 'CRITICAL']''))
   \<and> validate_log_level ''debug'' = Inr ''DEBUG''
   \<and> validate_log_level ''bogus'' = Inl (ValueError
             ''LOG_LEVEL must be one of ['DEBUG', 'INFO', 'WARNING', 'ERROR', 'CRITICAL']'')"
proof -
  have gen: "validate_log_level v =
     (if str_upper v \<in> {''DEBUG'', ''INFO'', ''WARNING'', ''ERROR'', ''CRITICAL''}
      then Inr (str_upper v)
      else Inl (ValueError
             ''LOG_LEVEL must be one of ['DEBUG', 'INFO', 'WARNING', 'ERROR', 'CRITICAL']''))"
    unfolding validate_log_level_def Let_def valid_levels_text by simp
  have ex1: "validate_log_level ''debug'' = Inr ''DEBUG''"
    by code_simp
  have ex2: "validate_log_level ''bogus'' = Inl (ValueError
             ''LOG_LEVEL must be one of ['DEBUG', 'INFO', 'WARNING', 'ERROR', 'CRITICAL']'')"
    by code_simp
  show ?thesis using gen ex1 ex2 by blast
qed

section \<open>The derived properties\<close>

text \<open>
  C7: \<^const>\<open>is_production\<close> holds exactly when ENVIRONMENT, compared without regard
  to case, equals \<^verbatim>\<open>"production"\<close>, and \<^const>\<open>is_development\<close> exactly when it so
  equals \<^verbatim>\<open>"development"\<close>; with ENVIRONMENT set to \<^verbatim>\<open>"Production"\<close> the first
  holds and the second does not, with \<^verbatim>\<open>"development"\<close> it is the other way round.
\<close>

theorem is_production_spec:
  "is_production self = case_insensitive_equal (ENVIRONMENT self) ''production''
   \<and> is_development self = case_insensitive_equal (ENVIRONMENT self) ''development''
   \<and> is_production (self\<lparr>ENVIRONMENT := ''Production''\<rparr>)
   \<and> \<not> is_development (self\<lparr>ENVIRONMENT := ''Production''\<rparr>)
   \<and> \<not> is_production (self\<lparr>ENVIRONMENT := ''development''\<rparr>)
   \<and> is_development (self\<lparr>ENVIRONMENT := ''development''\<rparr>)"
proof -
  have p: "is_production self = case_insensitive_equal (ENVIRONMENT self) ''production''"
    using str_lower_eq_iff [of "ENVIRONMENT self" "''production''"]
    by (simp add: is_production_def str_lower_production)
  have d: "is_development self = case_insensitive_equal (ENVIRONMENT self) ''development''"
    using str_lower_eq_iff [of "ENVIRONMENT self" "''development''"]
    by (simp add: is_development_def str_lower_development)
  have l1: "str_lower ''Production'' = ''production''"
    by code_simp
  have e1: "is_production (self\<lparr>ENVIRONMENT := ''Production''\<rparr>)"
    by (simp add: is_production_def l1)
  have e2: "\<not> is_development (self\<lparr>ENVIRONMENT := ''Production''\<rparr>)"
    by (simp add: is_development_def l1)
  have e3: "\<not> is_production (self\<lparr>ENVIRONMENT := ''development''\<rparr>)"
    by (simp add: is_production_def str_lower_development)
  have e4: "is_development (self\<lparr>ENVIRONMENT := ''development''\<rparr>)"
    by (simp add: is_development_def str_lower_development)
  show ?thesis using p d e1 e2 e3 e4 by blast
qed

end
